theory Spec2Isabelle
  imports Complex_Main
begin

section \<open>Floating-point values\<close>

text \<open>
  Coordinates are floating-point numbers.  A value is either finite or one of the three
  special values of IEEE-754.  Finite values are real numbers and finite arithmetic is
  exact: rounding, overflow to infinity and the sign of zero are not part of this model.
  The special values follow IEEE-754, which is what numpy and Python compute.
\<close>

datatype pyfloat = Fin real | PInf | NInf | NaN

fun is_Fin :: "pyfloat \<Rightarrow> bool" where
  "is_Fin (Fin _) = True"
| "is_Fin _ = False"

fun fneg :: "pyfloat \<Rightarrow> pyfloat" where
  "fneg (Fin a) = Fin (- a)"
| "fneg PInf = NInf"
| "fneg NInf = PInf"
| "fneg NaN = NaN"

fun fadd :: "pyfloat \<Rightarrow> pyfloat \<Rightarrow> pyfloat" where
  "fadd (Fin a) (Fin b) = Fin (a + b)"
| "fadd (Fin a) PInf = PInf"
| "fadd (Fin a) NInf = NInf"
| "fadd PInf (Fin b) = PInf"
| "fadd PInf PInf = PInf"
| "fadd PInf NInf = NaN"
| "fadd NInf (Fin b) = NInf"
| "fadd NInf NInf = NInf"
| "fadd NInf PInf = NaN"
| "fadd NaN _ = NaN"
| "fadd _ NaN = NaN"

definition fsub :: "pyfloat \<Rightarrow> pyfloat \<Rightarrow> pyfloat" where
  "fsub a b = fadd a (fneg b)"

text \<open>The sign of a finite value times infinity; zero times infinity is not a number.\<close>

definition signed_inf :: "real \<Rightarrow> pyfloat" where
  "signed_inf a = (if 0 < a then PInf else if a < 0 then NInf else NaN)"

fun fmul :: "pyfloat \<Rightarrow> pyfloat \<Rightarrow> pyfloat" where
  "fmul (Fin a) (Fin b) = Fin (a * b)"
| "fmul (Fin a) PInf = signed_inf a"
| "fmul (Fin a) NInf = signed_inf (- a)"
| "fmul PInf (Fin b) = signed_inf b"
| "fmul NInf (Fin b) = signed_inf (- b)"
| "fmul PInf PInf = PInf"
| "fmul PInf NInf = NInf"
| "fmul NInf PInf = NInf"
| "fmul NInf NInf = PInf"
| "fmul NaN _ = NaN"
| "fmul _ NaN = NaN"

text \<open>
  Division of floating-point values never raises in numpy: a zero divisor gives an
  infinity, or not-a-number for \<open>0 / 0\<close> (a warning is printed, no exception).
\<close>

fun fdiv :: "pyfloat \<Rightarrow> pyfloat \<Rightarrow> pyfloat" where
  "fdiv (Fin a) (Fin b) = (if b = 0 then signed_inf a else Fin (a / b))"
| "fdiv (Fin a) PInf = Fin 0"
| "fdiv (Fin a) NInf = Fin 0"
| "fdiv PInf (Fin b) = (if b < 0 then NInf else PInf)"
| "fdiv NInf (Fin b) = (if b < 0 then PInf else NInf)"
| "fdiv PInf PInf = NaN"
| "fdiv PInf NInf = NaN"
| "fdiv NInf PInf = NaN"
| "fdiv NInf NInf = NaN"
| "fdiv NaN _ = NaN"
| "fdiv _ NaN = NaN"

text \<open>The comparison \<open>a > b\<close>: every comparison with not-a-number is false.\<close>

fun fgt :: "pyfloat \<Rightarrow> pyfloat \<Rightarrow> bool" where
  "fgt (Fin a) (Fin b) = (b < a)"
| "fgt (Fin a) NInf = True"
| "fgt PInf (Fin b) = True"
| "fgt PInf NInf = True"
| "fgt _ _ = False"

section \<open>Errors\<close>

text \<open>
  The exceptions the code can raise.  Several distinct conditions raise Python's
  \<open>ValueError\<close>; the argument records which one.
\<close>

datatype value_error =
    SameDimension     \<comment> \<open>"Points must have the same dimension"\<close>
  | CannotReshape     \<comment> \<open>numpy: cannot reshape array of size k into shape (n, d)\<close>
  | EmptyMax          \<comment> \<open>\<open>max()\<close> of an empty sequence\<close>
  | MathDomain        \<comment> \<open>\<open>math.sqrt\<close> of a negative number\<close>
  | BadFloat          \<comment> \<open>\<open>float()\<close> of a string that is not a number\<close>
  | EmptySeparator    \<comment> \<open>\<open>str.split\<close> with an empty separator\<close>

datatype error = TypeError | IndexError | ValueError value_error

text \<open>Sequencing of computations that may raise: the first error is the result.\<close>

definition ebind :: "error + 'a \<Rightarrow> ('a \<Rightarrow> error + 'b) \<Rightarrow> error + 'b" where
  "ebind m f = (case m of Inl e \<Rightarrow> Inl e | Inr v \<Rightarrow> f v)"

text \<open>A list comprehension whose body may raise: elements are evaluated in order.\<close>

fun emap :: "('a \<Rightarrow> error + 'b) \<Rightarrow> 'a list \<Rightarrow> error + 'b list" where
  "emap f [] = Inr []"
| "emap f (a # as) = ebind (f a) (\<lambda>b. ebind (emap f as) (\<lambda>bs. Inr (b # bs)))"

section \<open>Python values passed as index or scalar\<close>

text \<open>
  \<open>Point.__getitem__\<close>, \<open>__mul__\<close> and \<open>__truediv__\<close> test the type of their argument
  with \<open>isinstance\<close>; an argument is an integer, a float, or something else.
\<close>

datatype pyval = PyInt int | PyFloat pyfloat | PyOther

section \<open>Point\<close>

text \<open>
  A \<open>Point\<close> object: its coordinate array, its dimension, and the attributes \<open>x\<close>, \<open>y\<close>,
  \<open>z\<close>, which exist only for some dimensions (\<open>None\<close>: the attribute is absent).
\<close>

record Point =
  coordinates :: "pyfloat list"
  dimension :: nat
  attr_x :: "pyfloat option"
  attr_y :: "pyfloat option"
  attr_z :: "pyfloat option"

definition Point_init :: "pyfloat list \<Rightarrow> Point" where
  "Point_init cs =
     \<lparr> coordinates = cs,
       dimension = length cs,
       attr_x = (if length cs \<le> 3 \<and> 1 \<le> length cs then Some (cs ! 0) else None),
       attr_y = (if length cs \<le> 3 \<and> 2 \<le> length cs then Some (cs ! 1) else None),
       attr_z = (if length cs \<le> 3 \<and> 3 \<le> length cs then Some (cs ! 2) else None) \<rparr>"

text \<open>
  Indexing a numpy array of length \<open>n\<close> with an integer \<open>k\<close>: negative indices count from
  the end, and an index outside \<open>-n \<le> k < n\<close> raises \<open>IndexError\<close>.
\<close>

definition np_index :: "'a list \<Rightarrow> int \<Rightarrow> error + 'a" where
  "np_index xs k =
     (let n = int (length xs); j = (if k < 0 then n + k else k)
      in if 0 \<le> j \<and> j < n then Inr (xs ! nat j) else Inl IndexError)"

definition getitem :: "Point \<Rightarrow> pyval \<Rightarrow> error + pyfloat" where
  "getitem self key =
     (case key of
        PyInt k \<Rightarrow>
          if k > int (dimension self) - 1 then Inl IndexError
          else np_index (coordinates self) k
      | _ \<Rightarrow> Inl TypeError)"


definition Point_sub :: "Point \<Rightarrow> Point \<Rightarrow> error + Point" where
  "Point_sub self other =
     (if dimension self \<noteq> dimension other then Inl (ValueError SameDimension)
      else Inr (Point_init (map2 fsub (coordinates self) (coordinates other))))"

text \<open>
  A scalar is an integer or a float; an integer is converted to a float.  The conversion
  is exact here: an integer too large for a float, for which Python raises
  \<open>OverflowError\<close>, is outside the model.
\<close>

fun scalar :: "pyval \<Rightarrow> pyfloat option" where
  "scalar (PyInt k) = Some (Fin (of_int k))"
| "scalar (PyFloat f) = Some f"
| "scalar PyOther = None"


definition Point_truediv :: "Point \<Rightarrow> pyval \<Rightarrow> error + Point" where
  "Point_truediv self other =
     (case scalar other of
        None \<Rightarrow> Inl TypeError
      | Some f \<Rightarrow> Inr (Point_init (map (\<lambda>c. fdiv c f) (coordinates self))))"

definition Origin :: "nat \<Rightarrow> Point" where
  "Origin d = Point_init (replicate d (Fin 0))"

section \<open>Distance\<close>

text \<open>
  \<open>sum\<close> adds from the left, starting from zero.  The square \<open>x ** 2\<close> of a coordinate
  difference is the product \<open>x * x\<close>.
\<close>

definition py_sum :: "pyfloat list \<Rightarrow> pyfloat" where
  "py_sum xs = foldl fadd (Fin 0) xs"

fun math_sqrt :: "pyfloat \<Rightarrow> error + pyfloat" where
  "math_sqrt (Fin a) = (if a < 0 then Inl (ValueError MathDomain) else Inr (Fin (sqrt a)))"
| "math_sqrt PInf = Inr PInf"
| "math_sqrt NInf = Inl (ValueError MathDomain)"
| "math_sqrt NaN = Inr NaN"

text \<open>
  \<open>max\<close> of a list: the first element, replaced by each later element that compares
  greater; an empty list raises \<open>ValueError\<close>.
\<close>

fun py_max :: "pyfloat list \<Rightarrow> error + pyfloat" where
  "py_max [] = Inl (ValueError EmptyMax)"
| "py_max (x # xs) = Inr (foldl (\<lambda>m y. if fgt y m then y else m) x xs)"

definition distance :: "Point \<Rightarrow> Point \<Rightarrow> error + pyfloat" where
  "distance point1 point2 =
     ebind
       (emap (\<lambda>i. ebind (getitem point1 (PyInt (int i))) (\<lambda>a.
                   ebind (getitem point2 (PyInt (int i))) (\<lambda>b.
                   Inr (fmul (fsub a b) (fsub a b)))))
             [0 ..< dimension point1])
       (\<lambda>sq. math_sqrt (py_sum sq))"


section \<open>PointCloud\<close>

record PointCloud =
  points :: "Point list"
  cloud_dimension :: nat
  point_count :: nat

text \<open>
  \<open>np.array(points).reshape(point_count, dimension)\<close>: the flat sequence is cut into
  \<open>point_count\<close> rows of \<open>dimension\<close> consecutive values; numpy raises \<open>ValueError\<close>
  when the sizes do not agree.  The two sizes are natural numbers: a negative size, which
  numpy reads as a size to infer, is outside the model.
\<close>

definition reshape :: "'a list \<Rightarrow> nat \<Rightarrow> nat \<Rightarrow> error + 'a list list" where
  "reshape raw n d =
     (if length raw = n * d
      then Inr (map (\<lambda>i. take d (drop (i * d) raw)) [0 ..< n])
      else Inl (ValueError CannotReshape))"

definition normalise :: "PointCloud \<Rightarrow> error + PointCloud" where
  "normalise self =
     ebind (np_index (points self) 0) (\<lambda>origin.
     ebind (emap (\<lambda>point. distance point origin) (drop 1 (points self))) (\<lambda>ds.
     ebind (py_max ds) (\<lambda>max_distance.
     ebind (emap (\<lambda>point. ebind (Point_sub point origin)
                     (\<lambda>q. Point_truediv q (PyFloat max_distance)))
                 (points self)) (\<lambda>ps.
     Inr (self \<lparr> points := ps \<rparr>)))))"

definition PointCloud_init :: "pyfloat list \<Rightarrow> nat \<Rightarrow> nat \<Rightarrow> bool \<Rightarrow> error + PointCloud" where
  "PointCloud_init raw d n nrm =
     ebind (reshape raw n d) (\<lambda>rows.
       let self = \<lparr> points = map Point_init rows, cloud_dimension = d, point_count = n \<rparr>
       in if nrm then normalise self else Inr self)"

section \<open>Real vectors\<close>

text \<open>
  The squared Euclidean distance of two real vectors, over the indices of the first.
  It states what \<open>distance\<close> computes on finite coordinates.
\<close>

definition sqdist :: "real list \<Rightarrow> real list \<Rightarrow> real" where
  "sqdist as bs = sum_list (map (\<lambda>i. (as ! i - bs ! i)\<^sup>2) [0 ..< length as])"

section \<open>Invariants\<close>

text \<open>
  A sum of squares is never negative and never minus infinity; \<open>math.sqrt\<close> accepts
  every such value.
\<close>

fun nonneg :: "pyfloat \<Rightarrow> bool" where
  "nonneg (Fin a) = (0 \<le> a)"
| "nonneg PInf = True"
| "nonneg NInf = False"
| "nonneg NaN = True"

text \<open>
  The invariant of a cloud: its points were built by the constructor of \<open>Point\<close> and
  have the cloud's dimension, and there are \<open>point_count\<close> of them.
\<close>

definition cloud_inv :: "PointCloud \<Rightarrow> bool" where
  "cloud_inv P \<longleftrightarrow>
     length (points P) = point_count P \<and>
     (\<forall>p \<in> set (points P). p = Point_init (coordinates p) \<and> dimension p = cloud_dimension P)"

section \<open>Finite clouds\<close>



definition vdist :: "real list \<Rightarrow> real list \<Rightarrow> real" where
  "vdist a b = sqrt (sqdist a b)"



text \<open>Every coordinate of the cloud is finite; all points of the cloud are the same point.\<close>

definition finite_cloud :: "PointCloud \<Rightarrow> bool" where
  "finite_cloud P \<longleftrightarrow> (\<forall>p \<in> set (points P). \<forall>c \<in> set (coordinates p). is_Fin c)"

definition all_identical :: "PointCloud \<Rightarrow> bool" where
  "all_identical P \<longleftrightarrow> (\<forall>p \<in> set (points P). \<forall>q \<in> set (points P). p = q)"

text \<open>The distances that the post-condition of \<open>normalise\<close> speaks of, and their maximum.\<close>

definition max_distance_to_first :: "PointCloud \<Rightarrow> error + pyfloat" where
  "max_distance_to_first P =
     ebind (np_index (points P) 0) (\<lambda>first.
     ebind (emap (\<lambda>point. distance point first) (drop 1 (points P))) py_max)"

text \<open>
  The scaling scenario of the specification: the raw sequence \<open>0,0,0, 2,0,0, 0,0,0\<close> as three
  points of dimension 3, before and after normalisation.
\<close>

definition scenario_cloud :: PointCloud where
  "scenario_cloud =
     \<lparr> points = [Point_init [Fin 0, Fin 0, Fin 0], Point_init [Fin 2, Fin 0, Fin 0],
                  Point_init [Fin 0, Fin 0, Fin 0]],
       cloud_dimension = 3, point_count = 3 \<rparr>"

definition scenario_normalised :: PointCloud where
  "scenario_normalised =
     \<lparr> points = [Point_init [Fin 0, Fin 0, Fin 0], Point_init [Fin 1, Fin 0, Fin 0],
                  Point_init [Fin 0, Fin 0, Fin 0]],
       cloud_dimension = 3, point_count = 3 \<rparr>"




section \<open>Delimited text\<close>

text \<open>
  \<open>delimiter.join(tokens)\<close> and \<open>line.split(delimiter)\<close>.  \<open>split\<close> scans the line from the
  left and cuts at every occurrence of the separator that does not overlap an earlier
  one; an empty separator raises \<open>ValueError\<close>.
\<close>

fun join :: "string \<Rightarrow> string list \<Rightarrow> string" where
  "join sep [] = []"
| "join sep [t] = t"
| "join sep (t # u # ts) = t @ sep @ join sep (u # ts)"

function split_scan :: "string \<Rightarrow> string \<Rightarrow> string \<Rightarrow> string list" where
  "split_scan sep tok [] = [tok]"
| "split_scan sep tok (c # cs) =
     (if sep \<noteq> [] \<and> take (length sep) (c # cs) = sep
      then tok # split_scan sep [] (drop (length sep) (c # cs))
      else split_scan sep (tok @ [c]) cs)"
  by pat_completeness auto
termination
  by (relation "measure (\<lambda>(sep, tok, s). length s)") (auto simp: neq_Nil_conv)

definition split :: "string \<Rightarrow> string \<Rightarrow> error + string list" where
  "split line sep =
     (if sep = [] then Inl (ValueError EmptySeparator) else Inr (split_scan sep [] line))"

text \<open>
  \<open>csv_repr\<close> and \<open>from_csv_line\<close>.  Python's \<open>str\<close> of a coordinate and \<open>float\<close> of a
  token are built-ins, not code of this repository: they are the parameters \<open>fmt\<close> and
  \<open>parse\<close> (\<open>None\<close>: the token is not a number and \<open>float\<close> raises \<open>ValueError\<close>).
\<close>

definition csv_repr :: "(pyfloat \<Rightarrow> string) \<Rightarrow> PointCloud \<Rightarrow> string \<Rightarrow> string" where
  "csv_repr fmt self delimiter =
     join delimiter (map fmt (concat (map coordinates (points self))))"

definition from_csv_line ::
  "(string \<Rightarrow> pyfloat option) \<Rightarrow> string \<Rightarrow> string \<Rightarrow> nat \<Rightarrow> nat \<Rightarrow> bool \<Rightarrow> error + PointCloud" where
  "from_csv_line parse line delimiter d n nrm =
     ebind (split line delimiter) (\<lambda>tokens.
     ebind (emap (\<lambda>t. case parse t of None \<Rightarrow> Inl (ValueError BadFloat) | Some f \<Rightarrow> Inr f) tokens)
       (\<lambda>raw. PointCloud_init raw d n nrm))"

text \<open>
  \<open>str\<close> and \<open>float\<close> on the two coordinate values of the scaling scenario, as Python
  prints and reads them.
\<close>

definition scenario_fmt :: "pyfloat \<Rightarrow> string" where
  "scenario_fmt c = (if c = Fin 0 then ''0.0'' else ''2.0'')"

definition scenario_parse :: "string \<Rightarrow> pyfloat option" where
  "scenario_parse s =
     (if s = ''0.0'' then Some (Fin 0) else if s = ''2.0'' then Some (Fin 2) else None)"

section \<open>The earlier copy of the module\<close>

text \<open>
  \<open>src/point_tools/point_tools.py\<close> is an earlier copy of the module.  Its subtraction
  and division build the new coordinates one index at a time; its module-level function
  \<open>distance\<close> has an extra first parameter \<open>self\<close>, which the body does not use; and its
  \<open>normalise\<close> takes the maximum over all points and calls \<open>distance(point, origin)\<close>, so
  that \<open>point\<close> is bound to \<open>self\<close>, \<open>origin\<close> to \<open>point1\<close>, and \<open>point2\<close> is the default
  \<open>Origin()\<close>.
\<close>

definition Point_sub_legacy :: "Point \<Rightarrow> Point \<Rightarrow> error + Point" where
  "Point_sub_legacy self other =
     (if dimension self \<noteq> dimension other then Inl (ValueError SameDimension)
      else ebind
             (emap (\<lambda>i. ebind (np_index (coordinates self) (int i)) (\<lambda>a.
                         ebind (np_index (coordinates other) (int i)) (\<lambda>b.
                         Inr (fsub a b))))
                   [0 ..< dimension self])
             (\<lambda>new_coordinates. Inr (Point_init new_coordinates)))"

definition Point_truediv_legacy :: "Point \<Rightarrow> pyval \<Rightarrow> error + Point" where
  "Point_truediv_legacy self other =
     (case scalar other of
        None \<Rightarrow> Inl TypeError
      | Some f \<Rightarrow>
          ebind
            (emap (\<lambda>i. ebind (np_index (coordinates self) (int i)) (\<lambda>a. Inr (fdiv a f)))
                  [0 ..< dimension self])
            (\<lambda>new_coordinates. Inr (Point_init new_coordinates)))"

definition distance_legacy :: "Point \<Rightarrow> Point \<Rightarrow> Point \<Rightarrow> error + pyfloat" where
  "distance_legacy self point1 point2 =
     ebind
       (emap (\<lambda>i. ebind (getitem point1 (PyInt (int i))) (\<lambda>a.
                   ebind (getitem point2 (PyInt (int i))) (\<lambda>b.
                   Inr (fmul (fsub a b) (fsub a b)))))
             [0 ..< dimension point1])
       (\<lambda>sq. math_sqrt (py_sum sq))"

definition normalise_legacy :: "PointCloud \<Rightarrow> error + PointCloud" where
  "normalise_legacy self =
     ebind (np_index (points self) 0) (\<lambda>origin.
     ebind (emap (\<lambda>point. distance_legacy point origin (Origin 3)) (points self)) (\<lambda>ds.
     ebind (py_max ds) (\<lambda>max_distance.
     ebind (emap (\<lambda>point. ebind (Point_sub_legacy point origin)
                     (\<lambda>q. Point_truediv_legacy q (PyFloat max_distance)))
                 (points self)) (\<lambda>ps.
     Inr (self \<lparr> points := ps \<rparr>)))))"

definition PointCloud_init_legacy ::
  "pyfloat list \<Rightarrow> nat \<Rightarrow> nat \<Rightarrow> bool \<Rightarrow> error + PointCloud" where
  "PointCloud_init_legacy raw d n nrm =
     ebind (reshape raw n d) (\<lambda>rows.
       let self = \<lparr> points = map Point_init rows, cloud_dimension = d, point_count = n \<rparr>
       in if nrm then normalise_legacy self else Inr self)"

section \<open>Point objects in a store\<close>








section \<open>Basic facts\<close>

lemma ebind_Inr [simp]: "ebind (Inr v) f = f v"
  by (simp add: ebind_def)

lemma ebind_Inl [simp]: "ebind (Inl e) f = Inl e"
  by (simp add: ebind_def)

lemma Point_init_sel [simp]:
  "coordinates (Point_init cs) = cs" "dimension (Point_init cs) = length cs"
  by (simp_all add: Point_init_def)

lemma emap_cong: "(\<And>x. x \<in> set xs \<Longrightarrow> f x = g x) \<Longrightarrow> emap f xs = emap g xs"
  by (induction xs) simp_all

lemma emap_Inr: "(\<And>x. x \<in> set xs \<Longrightarrow> f x = Inr (g x)) \<Longrightarrow> emap f xs = Inr (map g xs)"
  by (induction xs) simp_all


lemma getitem_nat:
  "i < length cs \<Longrightarrow> getitem (Point_init cs) (PyInt (int i)) = Inr (cs ! i)"
  by (simp add: getitem_def np_index_def)


section \<open>Indexing a Point\<close>

text \<open>
  Claim C10.  For a Point of dimension \<open>d\<close> and an integer key with \<open>-d \<le> key < 0\<close>,
  indexing does not fail: the guard \<open>key > dimension - 1\<close> lets the key through and the
  array counts it from the end, so the result is the coordinate at position \<open>d + key\<close>.
\<close>

theorem getitem_negative_index:
  "- int (length cs) \<le> k \<Longrightarrow> k < 0 \<Longrightarrow>
   getitem (Point_init cs) (PyInt k) = Inr (cs ! nat (int (length cs) + k))"
  by (simp add: getitem_def np_index_def)

theorem getitem_negative_index_witness:
  "- int (length [Fin 1, Fin 2, Fin 3]) \<le> - 1 \<and> (- 1 :: int) < 0 \<and>
   getitem (Point_init [Fin 1, Fin 2, Fin 3]) (PyInt (- 1)) = Inr (Fin 3)"
  using getitem_negative_index [of "[Fin 1, Fin 2, Fin 3]" "- 1"] by simp

section \<open>Division by zero\<close>

lemma fdiv_zero_not_finite: "\<not> is_Fin (fdiv c (Fin 0))"
  by (cases c) (simp_all add: signed_inf_def)

text \<open>
  Claim C5 says that dividing a Point by the scalar 0 fails.  It does not: the division
  of the point \<open>(1.0)\<close> by \<open>0\<close> returns the point \<open>(inf)\<close>.
\<close>

theorem truediv_zero_counterexample:
  "Point_truediv (Point_init [Fin 1]) (PyInt 0) = Inr (Point_init [PInf])"
  by (simp add: Point_truediv_def signed_inf_def)

text \<open>
  Claim C5, amended.  Dividing a Point by the integer or float zero never fails: it
  returns a Point of the same dimension, none of whose coordinates is finite (each is an
  infinity or not-a-number).
\<close>

theorem truediv_zero_not_an_error:
  "z \<in> {PyInt 0, PyFloat (Fin 0)} \<Longrightarrow>
   \<exists>q. Point_truediv p z = Inr q \<and> dimension q = length (coordinates p) \<and>
       (\<forall>c \<in> set (coordinates q). \<not> is_Fin c)"
  by (auto simp: Point_truediv_def fdiv_zero_not_finite)

theorem truediv_zero_not_an_error_witness:
  "PyInt 0 \<in> {PyInt 0, PyFloat (Fin 0)} \<and>
   (\<exists>q. Point_truediv (Point_init [Fin 1, Fin 0, Fin (- 2)]) (PyInt 0) = Inr q \<and>
        dimension q = length (coordinates (Point_init [Fin 1, Fin 0, Fin (- 2)])) \<and>
        (\<forall>c \<in> set (coordinates q). \<not> is_Fin c))"
  using truediv_zero_not_an_error [of "PyInt 0" "Point_init [Fin 1, Fin 0, Fin (- 2)]"] by simp

section \<open>Distance\<close>

lemma py_sum_Fin_aux: "foldl fadd (Fin s) (map Fin rs) = Fin (s + sum_list rs)"
  by (induction rs arbitrary: s) (simp_all add: add.assoc)

lemma py_sum_Fin: "py_sum (map Fin rs) = Fin (sum_list rs)"
  by (simp add: py_sum_def py_sum_Fin_aux)

lemma fsub_Fin [simp]: "fsub (Fin a) (Fin b) = Fin (a - b)"
  by (simp add: fsub_def)

lemma sqdist_nonneg: "0 \<le> sqdist as bs"
  by (auto simp: sqdist_def intro!: sum_list_nonneg)

lemma distance_finite:
  assumes "length as \<le> length bs"
  shows "distance (Point_init (map Fin as)) (Point_init (map Fin bs)) =
         Inr (Fin (sqrt (sqdist as bs)))"
proof -
  have "emap (\<lambda>i. ebind (getitem (Point_init (map Fin as)) (PyInt (int i))) (\<lambda>a.
                   ebind (getitem (Point_init (map Fin bs)) (PyInt (int i))) (\<lambda>b.
                   Inr (fmul (fsub a b) (fsub a b)))))
             [0 ..< length as]
        = Inr (map (\<lambda>i. Fin ((as ! i - bs ! i)\<^sup>2)) [0 ..< length as])"
    using assms by (intro emap_Inr) (simp add: getitem_nat power2_eq_square)
  moreover have "map (\<lambda>i. Fin ((as ! i - bs ! i)\<^sup>2)) [0 ..< length as]
                 = map Fin (map (\<lambda>i. (as ! i - bs ! i)\<^sup>2) [0 ..< length as])"
    by simp
  ultimately show ?thesis
    using sqdist_nonneg [of as bs]
    by (simp add: distance_def py_sum_Fin sqdist_def del: map_map)
qed


lemma distance_longer_second:
  assumes "length as \<le> length bs"
  shows "distance (Point_init as) (Point_init bs) =
         distance (Point_init as) (Point_init (take (length as) bs))"
proof -
  have "emap (\<lambda>i. ebind (getitem (Point_init as) (PyInt (int i))) (\<lambda>a.
                   ebind (getitem (Point_init bs) (PyInt (int i))) (\<lambda>b.
                   Inr (fmul (fsub a b) (fsub a b))))) [0 ..< length as]
      = emap (\<lambda>i. ebind (getitem (Point_init as) (PyInt (int i))) (\<lambda>a.
                   ebind (getitem (Point_init (take (length as) bs)) (PyInt (int i))) (\<lambda>b.
                   Inr (fmul (fsub a b) (fsub a b))))) [0 ..< length as]"
    using assms by (intro emap_cong) (simp add: getitem_nat)
  then show ?thesis
    by (simp add: distance_def)
qed

text \<open>
  Claim C3 says that \<open>distance\<close> fails whenever the two dimensions differ.  \<open>distance\<close>
  has no such check: it reads the first \<open>point1.dimension\<close> coordinates of both points.
  For the points \<open>(0.0)\<close> and \<open>(0.0, 5.0)\<close> it returns \<open>0.0\<close>.
\<close>

theorem distance_mismatch_returns_value:
  "distance (Point_init [Fin 0]) (Point_init [Fin 0, Fin 5]) = Inr (Fin 0)"
  using distance_finite [of "[0]" "[0, 5]"] by (simp add: sqdist_def)







section \<open>Construction of a PointCloud\<close>

lemma nonneg_square: "nonneg (fmul x x)"
  by (cases x) simp_all

lemma nonneg_fadd: "nonneg x \<Longrightarrow> nonneg y \<Longrightarrow> nonneg (fadd x y)"
  by (cases x; cases y) simp_all

lemma nonneg_foldl: "nonneg s \<Longrightarrow> \<forall>x \<in> set xs. nonneg x \<Longrightarrow> nonneg (foldl fadd s xs)"
  by (induction xs arbitrary: s) (simp_all add: nonneg_fadd)

lemma math_sqrt_nonneg: "nonneg x \<Longrightarrow> \<exists>v. math_sqrt x = Inr v"
  by (cases x) simp_all

lemma distance_succeeds:
  assumes "length as \<le> length bs"
  shows "\<exists>v. distance (Point_init as) (Point_init bs) = Inr v"
proof -
  have "emap (\<lambda>i. ebind (getitem (Point_init as) (PyInt (int i))) (\<lambda>a.
                   ebind (getitem (Point_init bs) (PyInt (int i))) (\<lambda>b.
                   Inr (fmul (fsub a b) (fsub a b))))) [0 ..< length as]
        = Inr (map (\<lambda>i. fmul (fsub (as ! i) (bs ! i)) (fsub (as ! i) (bs ! i))) [0 ..< length as])"
    using assms by (intro emap_Inr) (simp add: getitem_nat)
  moreover have "nonneg (py_sum (map (\<lambda>i. fmul (fsub (as ! i) (bs ! i)) (fsub (as ! i) (bs ! i))) [0 ..< length as]))"
    unfolding py_sum_def by (rule nonneg_foldl) (auto simp: nonneg_square)
  ultimately show ?thesis
    using math_sqrt_nonneg by (simp add: distance_def)
qed

lemma emap_length: "emap f xs = Inr ys \<Longrightarrow> length ys = length xs"
  by (induction xs arbitrary: ys) (auto simp: ebind_def split: sum.splits)

lemma emap_succeeds:
  "(\<And>x. x \<in> set xs \<Longrightarrow> \<exists>y. f x = Inr y \<and> Q y) \<Longrightarrow> \<exists>ys. emap f xs = Inr ys \<and> (\<forall>y \<in> set ys. Q y)"
proof (induction xs)
  case Nil
  then show ?case by simp
next
  case (Cons a xs)
  obtain b where b: "f a = Inr b" "Q b"
    using Cons.prems [of a] by auto
  obtain bs where bs: "emap f xs = Inr bs" "\<forall>y \<in> set bs. Q y"
    using Cons.IH Cons.prems by auto
  show ?case using b bs by simp
qed

lemma cloud_inv_point:
  "cloud_inv P \<Longrightarrow> p \<in> set (points P) \<Longrightarrow> \<exists>cs. p = Point_init cs \<and> length cs = cloud_dimension P"
  unfolding cloud_inv_def by (metis Point_init_sel(2))

lemma normalise_succeeds:
  assumes inv: "cloud_inv P" and n: "2 \<le> point_count P"
  shows "\<exists>Q. normalise P = Inr Q \<and> cloud_inv Q \<and>
             cloud_dimension Q = cloud_dimension P \<and> point_count Q = point_count P"
proof -
  obtain o' rest where ps: "points P = o' # rest" and rest: "rest \<noteq> []"
    using inv n by (cases "points P"; cases "tl (points P)") (auto simp: cloud_inv_def)
  obtain os where os: "o' = Point_init os" "length os = cloud_dimension P"
    using cloud_inv_point [OF inv, of o'] ps by auto
  have "\<exists>ds. emap (\<lambda>point. distance point o') rest = Inr ds \<and> (\<forall>d \<in> set ds. True)"
  proof (rule emap_succeeds)
    fix p assume "p \<in> set rest"
    then obtain cs where "p = Point_init cs" "length cs = cloud_dimension P"
      using cloud_inv_point [OF inv, of p] ps by auto
    then show "\<exists>y. distance p o' = Inr y \<and> True"
      using distance_succeeds [of cs os] os by simp
  qed
  then obtain ds where ds: "emap (\<lambda>point. distance point o') rest = Inr ds"
    by blast
  have "length ds = length rest"
    using emap_length [OF ds] .
  then obtain m where m: "py_max ds = Inr m"
    using rest by (cases ds) auto
  let ?Q = "\<lambda>q. q = Point_init (coordinates q) \<and> dimension q = cloud_dimension P"
  have "\<exists>qs. emap (\<lambda>point. ebind (Point_sub point o') (\<lambda>q. Point_truediv q (PyFloat m))) (points P) = Inr qs
          \<and> (\<forall>q \<in> set qs. ?Q q)"
  proof (rule emap_succeeds)
    fix p assume "p \<in> set (points P)"
    then obtain cs where "p = Point_init cs" "length cs = cloud_dimension P"
      using cloud_inv_point [OF inv, of p] by auto
    then show "\<exists>y. ebind (Point_sub p o') (\<lambda>q. Point_truediv q (PyFloat m)) = Inr y \<and> ?Q y"
      using os by (simp add: Point_sub_def Point_truediv_def)
  qed
  then obtain qs where qs:
    "emap (\<lambda>point. ebind (Point_sub point o') (\<lambda>q. Point_truediv q (PyFloat m))) (points P) = Inr qs"
    "\<forall>q \<in> set qs. ?Q q"
    by blast
  have "length qs = point_count P"
    using emap_length [OF qs(1)] inv by (simp add: cloud_inv_def)
  then show ?thesis
    using ps ds m qs by (simp add: normalise_def np_index_def cloud_inv_def)
qed

lemma reshape_rows:
  "length raw = n * d \<Longrightarrow> reshape raw n d = Inr (map (\<lambda>i. take d (drop (i * d) raw)) [0 ..< n])"
  by (simp add: reshape_def)

lemma row_length: "length raw = n * d \<Longrightarrow> i < n \<Longrightarrow> length (take d (drop (i * d) raw)) = d"
proof -
  assume a: "length raw = n * d" "i < n"
  then have "Suc i * d \<le> n * d"
    by (intro mult_le_mono1) simp
  then show ?thesis using a by simp
qed

text \<open>
  Claim C6 says that construction succeeds whenever the length of the raw sequence is
  \<open>d * n\<close>.  With normalisation requested (the default) and a single point it fails:
  the maximum is taken over an empty list of distances.
\<close>

theorem PointCloud_init_counterexample:
  "PointCloud_init [Fin 1, Fin 2, Fin 3] 3 1 True = Inl (ValueError EmptyMax)"
  by (simp add: PointCloud_init_def reshape_def normalise_def np_index_def)

text \<open>
  Claim C6, amended.  For natural numbers \<open>d\<close> and \<open>n\<close> (so for all integers
  \<open>d, n \<ge> 1\<close>) and every flat sequence \<open>raw\<close> of floats: construction fails with the
  reshape error whenever the length of \<open>raw\<close> is not \<open>d * n\<close>, whatever the normalisation
  flag.  When the length is \<open>d * n\<close>, construction without normalisation succeeds and the
  points are the \<open>n\<close> consecutive groups of \<open>d\<close> values; construction with normalisation
  succeeds when \<open>n \<ge> 2\<close>, giving \<open>n\<close> points of \<open>d\<close> coordinates each.
\<close>

theorem PointCloud_init_shape:
  "(length raw \<noteq> d * n \<longrightarrow> PointCloud_init raw d n nrm = Inl (ValueError CannotReshape)) \<and>
   (length raw = d * n \<longrightarrow>
      PointCloud_init raw d n False =
        Inr \<lparr> points = map (\<lambda>i. Point_init (take d (drop (i * d) raw))) [0 ..< n],
              cloud_dimension = d, point_count = n \<rparr>) \<and>
   (length raw = d * n \<and> 2 \<le> n \<longrightarrow>
      (\<exists>P. PointCloud_init raw d n True = Inr P \<and> length (points P) = n \<and>
           (\<forall>p \<in> set (points P). length (coordinates p) = d \<and> dimension p = d)))"
proof -
  have shape: "PointCloud_init raw d n nrm = Inl (ValueError CannotReshape)" if "length raw \<noteq> d * n"
    using that by (simp add: PointCloud_init_def reshape_def mult.commute)
  let ?P = "\<lparr> points = map (\<lambda>i. Point_init (take d (drop (i * d) raw))) [0 ..< n],
              cloud_dimension = d, point_count = n \<rparr>"
  have plain: "PointCloud_init raw d n False = Inr ?P" if "length raw = d * n"
    using that by (simp add: PointCloud_init_def reshape_def mult.commute comp_def)
  have normed: "\<exists>P. PointCloud_init raw d n True = Inr P \<and> length (points P) = n \<and>
           (\<forall>p \<in> set (points P). length (coordinates p) = d \<and> dimension p = d)"
    if len: "length raw = d * n" and n: "2 \<le> n"
  proof -
    have inv: "cloud_inv ?P"
      using len row_length [of raw n d] by (auto simp: cloud_inv_def mult.commute)
    obtain Q where Q: "normalise ?P = Inr Q" "cloud_inv Q" "cloud_dimension Q = d" "point_count Q = n"
      using normalise_succeeds [OF inv] n by auto
    have "PointCloud_init raw d n True = Inr Q"
      using len Q(1) by (simp add: PointCloud_init_def reshape_def mult.commute comp_def)
    moreover have "length (points Q) = n"
      using Q by (simp add: cloud_inv_def)
    moreover have "\<forall>p \<in> set (points Q). length (coordinates p) = d \<and> dimension p = d"
      using Q unfolding cloud_inv_def by (metis Point_init_sel(2))
    ultimately show ?thesis by blast
  qed
  show ?thesis using shape plain normed by blast
qed

theorem PointCloud_init_shape_witness:
  "length [Fin 1, Fin 2] \<noteq> 3 * 1 \<and>
   PointCloud_init [Fin 1, Fin 2] 3 1 True = Inl (ValueError CannotReshape) \<and>
   length [Fin 0, Fin 0, Fin 0, Fin 2, Fin 0, Fin 0] = 3 * 2 \<and> (2::nat) \<le> 2 \<and>
   PointCloud_init [Fin 0, Fin 0, Fin 0, Fin 2, Fin 0, Fin 0] 3 2 False =
     Inr \<lparr> points = [Point_init [Fin 0, Fin 0, Fin 0], Point_init [Fin 2, Fin 0, Fin 0]],
           cloud_dimension = 3, point_count = 2 \<rparr> \<and>
   (\<exists>P. PointCloud_init [Fin 0, Fin 0, Fin 0, Fin 2, Fin 0, Fin 0] 3 2 True = Inr P \<and>
        length (points P) = 2)"
proof -
  have a: "PointCloud_init [Fin 1, Fin 2] 3 1 True = Inl (ValueError CannotReshape)"
    using PointCloud_init_shape [of "[Fin 1, Fin 2]" 3 1 True] by simp
  note th = PointCloud_init_shape [of "[Fin 0, Fin 0, Fin 0, Fin 2, Fin 0, Fin 0]" 3 2 True]
  have b: "PointCloud_init [Fin 0, Fin 0, Fin 0, Fin 2, Fin 0, Fin 0] 3 2 False =
     Inr \<lparr> points = [Point_init [Fin 0, Fin 0, Fin 0], Point_init [Fin 2, Fin 0, Fin 0]],
           cloud_dimension = 3, point_count = 2 \<rparr>"
    using th by (simp add: upt_rec [of 0] upt_rec [of 1] numeral_2_eq_2)
  have c: "\<exists>P. PointCloud_init [Fin 0, Fin 0, Fin 0, Fin 2, Fin 0, Fin 0] 3 2 True = Inr P \<and>
        length (points P) = 2"
    using th by auto
  show ?thesis using a b c by simp
qed

section \<open>Normalisation of finite clouds\<close>

lemma emap_map: "emap f (map g xs) = emap (\<lambda>x. f (g x)) xs"
  by (induction xs) simp_all












lemma vdist_nonneg: "0 \<le> vdist v org"
  by (simp add: vdist_def sqdist_nonneg)










lemma scenario_facts:
  "cloud_inv scenario_cloud" "finite_cloud scenario_cloud" "2 \<le> point_count scenario_cloud"
  "\<not> all_identical scenario_cloud"
  by (simp_all add: scenario_cloud_def cloud_inv_def finite_cloud_def all_identical_def Point_init_def)



lemma scenario_eval:
  "normalise scenario_cloud = Inr scenario_normalised"
  "normalise scenario_normalised = Inr scenario_normalised"
  by (simp_all add: scenario_cloud_def scenario_normalised_def normalise_def np_index_def
      distance_def getitem_def Point_init_def Point_sub_def Point_truediv_def py_sum_def
      upt_rec numeral_nat)

text \<open>
  Claim C7 says that a second call of \<open>normalise\<close> changes the result of the first.
  On the scaling scenario of the specification the second call returns the same cloud.
\<close>

theorem normalise_twice_counterexample:
  "normalise scenario_cloud = Inr scenario_normalised \<and>
   ebind (normalise scenario_cloud) normalise = Inr scenario_normalised"
  by (simp add: scenario_eval)

lemma fsub_zero: "fsub c (Fin 0) = c"
  by (cases c) (simp_all add: fsub_def)

lemma fdiv_one: "fdiv c (Fin 1) = c"
  by (cases c) simp_all

lemma sub_zero_div_one:
  "ebind (Point_sub (Point_init cs) (Point_init (replicate (length cs) (Fin 0))))
         (\<lambda>q. Point_truediv q (PyFloat (Fin 1))) = Inr (Point_init cs)"
proof -
  have "map2 fsub cs (replicate (length cs) (Fin 0)) = cs"
    by (intro nth_equalityI) (simp_all add: fsub_zero)
  moreover have "map (\<lambda>c. fdiv c (Fin 1)) cs = cs"
    by (intro nth_equalityI) (simp_all add: fdiv_one)
  ultimately show ?thesis
    by (simp add: Point_sub_def Point_truediv_def)
qed

lemma normalise_keeps_inv:
  assumes "cloud_inv P" "normalise P = Inr Q"
  shows "cloud_inv Q"
proof -
  have len: "length (points P) = point_count P"
    using assms(1) by (simp add: cloud_inv_def)
  have "2 \<le> point_count P"
  proof (rule ccontr)
    assume "\<not> 2 \<le> point_count P"
    then consider "points P = []" | p where "points P = [p]"
      using len by (cases "points P"; cases "tl (points P)") auto
    then show False
      using assms(2) by cases (simp_all add: normalise_def np_index_def)
  qed
  then show ?thesis
    using normalise_succeeds [OF assms(1)] assms(2) by auto
qed

lemma normalise_unit:
  assumes inv: "cloud_inv Q"
    and zero: "coordinates (points Q ! 0) = replicate (cloud_dimension Q) (Fin 0)"
    and one: "max_distance_to_first Q = Inr (Fin 1)"
  shows "normalise Q = Inr Q"
proof -
  obtain org rest where ps: "points Q = org # rest"
    using one by (cases "points Q") (simp_all add: max_distance_to_first_def np_index_def)
  have "ebind (emap (\<lambda>point. distance point org) rest) py_max = Inr (Fin 1)"
    using one ps by (simp add: max_distance_to_first_def np_index_def)
  then obtain ds where ds: "emap (\<lambda>point. distance point org) rest = Inr ds" "py_max ds = Inr (Fin 1)"
    by (cases "emap (\<lambda>point. distance point org) rest") simp_all
  obtain os where "org = Point_init os" "length os = cloud_dimension Q"
    using cloud_inv_point [OF inv, of org] ps by auto
  then have org: "org = Point_init (replicate (cloud_dimension Q) (Fin 0))"
    using zero ps by simp
  have "emap (\<lambda>point. ebind (Point_sub point org) (\<lambda>q. Point_truediv q (PyFloat (Fin 1))))
          (points Q) = Inr (map (\<lambda>p. p) (points Q))"
  proof (rule emap_Inr)
    fix p assume "p \<in> set (points Q)"
    then obtain cs where "p = Point_init cs" "length cs = cloud_dimension Q"
      using cloud_inv_point [OF inv, of p] by auto
    then show "ebind (Point_sub p org) (\<lambda>q. Point_truediv q (PyFloat (Fin 1))) = Inr p"
      using sub_zero_div_one [of cs] org by simp
  qed
  then have "normalise Q = Inr (Q \<lparr> points := points Q \<rparr>)"
    using ps ds by (simp add: normalise_def np_index_def)
  then show ?thesis
    by simp
qed

text \<open>
  Claim C7, amended.  A second call of \<open>normalise\<close> does not always change the result of
  the first.  Whenever the cloud that the first call returns has its first point at the
  zero vector and the maximal distance that \<open>normalise\<close> computes on it is exactly 1.0,
  the second call returns the same cloud: it subtracts zero from every coordinate and
  divides it by one, and both operations are exact for every floating-point value.
\<close>

theorem normalise_again_unchanged:
  assumes "cloud_inv P" and "normalise P = Inr Q"
    and "coordinates (points Q ! 0) = replicate (cloud_dimension Q) (Fin 0)"
    and "max_distance_to_first Q = Inr (Fin 1)"
  shows "normalise Q = Inr Q"
  using normalise_unit [OF normalise_keeps_inv [OF assms(1,2)] assms(3,4)] .

theorem normalise_again_unchanged_witness:
  "cloud_inv scenario_cloud \<and> normalise scenario_cloud = Inr scenario_normalised \<and>
   coordinates (points scenario_normalised ! 0)
     = replicate (cloud_dimension scenario_normalised) (Fin 0) \<and>
   max_distance_to_first scenario_normalised = Inr (Fin 1) \<and>
   normalise scenario_normalised = Inr scenario_normalised"
proof -
  have zero: "coordinates (points scenario_normalised ! 0)
                = replicate (cloud_dimension scenario_normalised) (Fin 0)"
    by (simp add: scenario_normalised_def numeral_3_eq_3)
  have one: "max_distance_to_first scenario_normalised = Inr (Fin 1)"
    by (simp add: scenario_normalised_def max_distance_to_first_def np_index_def distance_def
        getitem_def Point_init_def py_sum_def upt_rec numeral_nat)
  have "normalise scenario_normalised = Inr scenario_normalised"
    using normalise_again_unchanged [OF scenario_facts(1) scenario_eval(1) zero one] .
  then show ?thesis
    using scenario_facts(1) scenario_eval(1) zero one by simp
qed

section \<open>Round trip through delimited text\<close>

lemma split_scan_no_sep:
  "sep \<noteq> [] \<Longrightarrow> hd sep \<notin> set t \<Longrightarrow> split_scan sep tok t = [tok @ t]"
proof (induction t arbitrary: tok)
  case Nil
  then show ?case by simp
next
  case (Cons c t)
  have "take (length sep) (c # t) \<noteq> sep"
    using Cons.prems by (cases sep) auto
  then show ?case
    using Cons by simp
qed

lemma split_scan_token:
  "sep \<noteq> [] \<Longrightarrow> hd sep \<notin> set t \<Longrightarrow>
   split_scan sep tok (t @ sep @ s) = (tok @ t) # split_scan sep [] s"
proof (induction t arbitrary: tok)
  case Nil
  then show ?case by (cases sep) simp_all
next
  case (Cons c t)
  have "take (length sep) (c # t @ sep @ s) \<noteq> sep"
    using Cons.prems by (cases sep) auto
  then show ?case
    using Cons by simp
qed

lemma split_scan_join:
  "sep \<noteq> [] \<Longrightarrow> ts \<noteq> [] \<Longrightarrow> \<forall>t \<in> set ts. hd sep \<notin> set t \<Longrightarrow>
   split_scan sep [] (join sep ts) = ts"
proof (induction sep ts rule: join.induct)
  case (1 sep)
  then show ?case by simp
next
  case (2 sep t)
  then show ?case by (simp add: split_scan_no_sep)
next
  case (3 sep t u ts)
  then show ?case by (simp add: split_scan_token)
qed

lemma concat_rows: "concat (map (\<lambda>i. take d (drop (i * d) xs)) [0 ..< n]) = take (n * d) xs"
proof (induction n)
  case 0
  then show ?case by simp
next
  case (Suc n)
  have "take (n * d) xs @ take d (drop (n * d) xs) = take (n * d + d) xs"
    by (simp add: take_add)
  then show ?case
    using Suc by (simp add: add.commute)
qed

lemma PointCloud_init_coordinates:
  assumes "PointCloud_init raw d n False = Inr P"
  shows "concat (map coordinates (points P)) = raw"
proof -
  have len: "length raw = n * d"
    using assms by (auto simp: PointCloud_init_def reshape_def split: if_splits)
  then have "points P = map Point_init (map (\<lambda>i. take d (drop (i * d) raw)) [0 ..< n])"
    using assms by (auto simp: PointCloud_init_def reshape_def)
  then have "map coordinates (points P) = map (\<lambda>i. take d (drop (i * d) raw)) [0 ..< n]"
    by (simp add: comp_def)
  then show ?thesis
    using len by (simp add: concat_rows)
qed

text \<open>
  Claim C2 says that the round trip reproduces the cloud for every cloud and delimiter.
  With the empty delimiter \<open>csv_repr\<close> succeeds and \<open>from_csv_line\<close> fails, whatever
  \<open>str\<close> and \<open>float\<close> do: \<open>split\<close> rejects an empty separator.
\<close>

theorem csv_round_trip_counterexample:
  "PointCloud_init [Fin 0, Fin 0, Fin 0, Fin 2, Fin 0, Fin 0, Fin 0, Fin 0, Fin 0] 3 3 False
     = Inr scenario_cloud \<and>
   (\<forall>fmt parse. from_csv_line parse (csv_repr fmt scenario_cloud []) [] 3 3 False
     = Inl (ValueError EmptySeparator))"
  by (simp add: from_csv_line_def split_def PointCloud_init_def reshape_def scenario_cloud_def
      upt_rec numeral_nat)

text \<open>
  Claim C2, amended.  Let \<open>P\<close> be a cloud constructed without normalisation from a
  non-empty raw sequence, and let the delimiter be non-empty with its first character in
  no rendered coordinate.  If \<open>float(str(c))\<close> is \<open>c\<close> for every coordinate, then reading
  \<open>csv_repr\<close> back with the same delimiter, dimension and point count, without
  normalisation, gives \<open>P\<close> again.
\<close>

theorem csv_round_trip:
  assumes "PointCloud_init raw d n False = Inr P"
    and "raw \<noteq> []"
    and "delimiter \<noteq> []"
    and "\<forall>c \<in> set raw. hd delimiter \<notin> set (fmt c)"
    and "\<forall>c \<in> set raw. parse (fmt c) = Some c"
  shows "from_csv_line parse (csv_repr fmt P delimiter) delimiter d n False = Inr P"
proof -
  have "csv_repr fmt P delimiter = join delimiter (map fmt raw)"
    using PointCloud_init_coordinates [OF assms(1)] by (simp add: csv_repr_def)
  moreover have "split_scan delimiter [] (join delimiter (map fmt raw)) = map fmt raw"
    using assms(2,3,4) by (intro split_scan_join) auto
  moreover have "emap (\<lambda>t. case parse t of None \<Rightarrow> Inl (ValueError BadFloat) | Some f \<Rightarrow> Inr f)
                   (map fmt raw) = Inr raw"
  proof -
    have "emap (\<lambda>c. case parse (fmt c) of None \<Rightarrow> Inl (ValueError BadFloat) | Some f \<Rightarrow> Inr f) raw
          = Inr (map (\<lambda>c. c) raw)"
      using assms(5) by (intro emap_Inr) simp
    then show ?thesis
      by (simp add: emap_map)
  qed
  ultimately show ?thesis
    using assms(1,3) by (simp add: from_csv_line_def split_def)
qed

theorem csv_round_trip_witness:
  "PointCloud_init [Fin 0, Fin 0, Fin 0, Fin 2, Fin 0, Fin 0, Fin 0, Fin 0, Fin 0] 3 3 False
     = Inr scenario_cloud \<and>
   csv_repr scenario_fmt scenario_cloud '','' = ''0.0,0.0,0.0,2.0,0.0,0.0,0.0,0.0,0.0'' \<and>
   from_csv_line scenario_parse (csv_repr scenario_fmt scenario_cloud '','') '','' 3 3 False
     = Inr scenario_cloud"
proof -
  let ?raw = "[Fin 0, Fin 0, Fin 0, Fin 2, Fin 0, Fin 0, Fin 0, Fin 0, Fin 0]"
  have init: "PointCloud_init ?raw 3 3 False = Inr scenario_cloud"
    by (simp add: PointCloud_init_def reshape_def scenario_cloud_def upt_rec numeral_nat)
  have repr: "csv_repr scenario_fmt scenario_cloud '','' = ''0.0,0.0,0.0,2.0,0.0,0.0,0.0,0.0,0.0''"
    by (simp add: csv_repr_def scenario_cloud_def scenario_fmt_def)
  have a: "\<forall>c \<in> set ?raw. hd '','' \<notin> set (scenario_fmt c)"
    by (simp add: scenario_fmt_def)
  have b: "\<forall>c \<in> set ?raw. scenario_parse (scenario_fmt c) = Some c"
    by (simp add: scenario_fmt_def scenario_parse_def)
  have "from_csv_line scenario_parse (csv_repr scenario_fmt scenario_cloud '','') '','' 3 3 False
        = Inr scenario_cloud"
    by (rule csv_round_trip [OF init _ _ a b]) simp_all
  then show ?thesis
    using init repr by simp
qed

section \<open>Normalising a single point\<close>

lemma normalise_single_point:
  "length (points P) = 1 \<Longrightarrow> normalise P = Inl (ValueError EmptyMax)"
proof -
  assume "length (points P) = 1"
  then obtain p where "points P = [p]"
    by (cases "points P") auto
  then show ?thesis
    by (simp add: normalise_def np_index_def)
qed

text \<open>
  Claim C8.  In \<open>src/modules/point_tools.py\<close> normalising a cloud of one point always
  fails (lemma \<open>normalise_single_point\<close>).  In the earlier copy
  \<open>src/point_tools/point_tools.py\<close> it does not: constructing the cloud of the single
  point \<open>(0.0, 0.0, 0.0)\<close>, with normalisation, returns a cloud whose point has three
  not-a-number coordinates.
\<close>

theorem legacy_single_point_nan:
  "PointCloud_init_legacy [Fin 0, Fin 0, Fin 0] 3 1 True =
     Inr \<lparr> points = [Point_init [NaN, NaN, NaN]], cloud_dimension = 3, point_count = 1 \<rparr>"
  by (simp add: PointCloud_init_legacy_def reshape_def normalise_legacy_def np_index_def
      distance_legacy_def getitem_def Origin_def Point_init_def Point_sub_legacy_def
      Point_truediv_legacy_def py_sum_def fsub_def signed_inf_def upt_rec numeral_nat)

section \<open>Arithmetic leaves its operands unchanged\<close>




end
